theory Spec2Isabelle
  imports Complex_Main "HOL-Library.Sublist"
begin

section \<open>Data model: profile tables\<close>

text \<open>
  A pandas DataFrame is modelled as an ordered list of named columns over the default
  positional row index. A cell is a number, a string, or missing (pandas NaN/None).
  Numbers are exact rationals: the arithmetic of the correction functions is followed in
  exact arithmetic, so rounding and the infinite floats are outside the model. Where
  rounding decides the outcome the program's float64 values differ from the values here:
  a residual or a denominator that is zero in exact arithmetic may be rounding noise in
  floats (and one that cancels in floats may not cancel exactly), and integers beyond
  2^53 are not represented exactly.
\<close>

datatype cell = Num rat | Str string | NA

type_synonym column = "cell list"

type_synonym table = "(string \<times> column) list"

text \<open>
  Exceptions are values. \<open>Unmodelled\<close> is not an exception of the program: it marks
  the inputs on which the third-party formula interface does something this development
  does not follow (see the regression section).
\<close>

datatype error =
    KeyError string
  | TypeError
  | ValueError
  | PatsyError
  | AssertionError string
  | Unmodelled

text \<open>
  A well-formed frame: all columns have the same number of rows, as pandas guarantees,
  and the column names are distinct. pandas tolerates repeated names; frames with
  repeated names are not followed here.
\<close>

definition nrows :: "table \<Rightarrow> nat" where
  "nrows t = (case t of [] \<Rightarrow> 0 | (n, col) # rest \<Rightarrow> length col)"

definition wf_table :: "table \<Rightarrow> bool" where
  "wf_table t = (distinct (map fst t) \<and> list_all (\<lambda>(n, col). length col = nrows t) t)"

text \<open>
  \<^verbatim>\<open>df.filter(regex="^(?!Metadata_)").columns\<close>: the regular expression is searched
  in each column name; the negative look-ahead anchored at the start matches exactly the
  names that do not begin with \<^verbatim>\<open>Metadata_\<close>.
\<close>

definition is_feature :: "string \<Rightarrow> bool" where
  "is_feature name = (\<not> prefix ''Metadata_'' name)"

definition feature_cols :: "table \<Rightarrow> string list" where
  "feature_cols t = filter is_feature (map fst t)"

section \<open>Missing-aware arithmetic of a numeric column\<close>

definition is_numeric :: "column \<Rightarrow> bool" where
  "is_numeric col = list_all (\<lambda>c. case c of Str s \<Rightarrow> False | _ \<Rightarrow> True) col"

text \<open>The values that are present (pandas \<^verbatim>\<open>skipna=True\<close>).\<close>

fun present :: "column \<Rightarrow> rat list" where
  "present [] = []"
| "present (Num x # cs) = x # present cs"
| "present (c # cs) = present cs"

text \<open>\<^verbatim>\<open>Series.mean()\<close>: the mean of the present values, NaN when there is none.\<close>

definition mean :: "column \<Rightarrow> cell" where
  "mean col =
     (let xs = present col
      in if xs = [] then NA else Num (sum_list xs / of_nat (length xs)))"

text \<open>Elementwise subtraction of floats: a missing operand gives a missing result.\<close>

fun cell_sub :: "cell \<Rightarrow> cell \<Rightarrow> cell" where
  "cell_sub (Num a) (Num b) = Num (a - b)"
| "cell_sub a b = NA"

section \<open>Well-mean subtraction\<close>

text \<open>
  \<^verbatim>\<open>ann_df.groupby("Metadata_Well")[feature_cols].transform(lambda x: x - x.mean())\<close>.
  The rows of one group are the rows whose key equals the group's key; rows with a
  missing key belong to no group (\<^verbatim>\<open>dropna=True\<close>) and come back missing. The result
  keeps the row order of the frame.
\<close>

definition group_rows :: "column \<Rightarrow> column \<Rightarrow> cell \<Rightarrow> column" where
  "group_rows keys col k = map snd (filter (\<lambda>p. fst p = k) (zip keys col))"

definition transform_centre :: "column \<Rightarrow> column \<Rightarrow> column" where
  "transform_centre keys col =
     map (\<lambda>(k, v). if k = NA then NA else cell_sub v (mean (group_rows keys col k)))
       (zip keys col)"

text \<open>
  The function itself, as the value of the frame it returns. The group key column is
  looked up first (a frame without it raises KeyError). The transform concatenates the
  results of the groups that hold any cell: when there is none (no feature column, or no
  row with a key, in particular no row at all) pandas has nothing to concatenate and
  raises ValueError. A feature column holding a string cannot be averaged (TypeError).
  Otherwise every feature column is replaced, in its place, by its centred values, and
  the frame is returned.
\<close>

definition subtract_well_mean :: "table \<Rightarrow> error + table" where
  "subtract_well_mean ann_df =
     (case map_of ann_df ''Metadata_Well'' of
        None \<Rightarrow> Inl (KeyError ''Metadata_Well'')
      | Some keys \<Rightarrow>
          if feature_cols ann_df = [] then Inl ValueError
          else if list_all (\<lambda>k. k = NA) keys then Inl ValueError
          else if list_all (\<lambda>(n, col). is_numeric col)
                    (filter (\<lambda>(n, col). is_feature n) ann_df)
          then Inr (map (\<lambda>(n, col).
                      if is_feature n then (n, transform_centre keys col) else (n, col))
                    ann_df)
          else Inl TypeError)"




text \<open>A table without missing values.\<close>

definition no_missing :: "table \<Rightarrow> bool" where
  "no_missing t = list_all (\<lambda>(n, col). list_all (\<lambda>c. c \<noteq> NA) col) t"

section \<open>MAD robustization\<close>

text \<open>
  The quotient of two floats may be infinite or undefined although both are finite, so
  the result of the division has its own type. A zero denominator is the float
  \<^verbatim>\<open>+0.0\<close> here (the scaled MAD is non-negative and a sum that cancels rounds to
  \<^verbatim>\<open>+0.0\<close>), so the sign of an infinite quotient is the sign of the numerator.
\<close>

datatype fnum = Fin rat | PosInf | NegInf | NaN

fun cell_add :: "cell \<Rightarrow> cell \<Rightarrow> cell" where
  "cell_add (Num a) (Num b) = Num (a + b)"
| "cell_add a b = NA"

fun cell_div :: "cell \<Rightarrow> cell \<Rightarrow> fnum" where
  "cell_div (Num a) (Num b) =
     (if b \<noteq> 0 then Fin (a / b)
      else if a = 0 then NaN
      else if 0 < a then PosInf else NegInf)"
| "cell_div a b = NaN"

text \<open>
  The median of the values of a list (numpy): the middle element of the sorted list, or
  the mean of the two middle elements; NaN for no values.
\<close>

definition median :: "rat list \<Rightarrow> cell" where
  "median xs =
     (let s = sort xs; n = length s
      in if n = 0 then NA
         else if odd n then Num (s ! (n div 2))
         else Num ((s ! (n div 2 - 1) + s ! (n div 2)) / 2))"

text \<open>\<^verbatim>\<open>Series.median()\<close> skips the missing values.\<close>

definition pd_median :: "column \<Rightarrow> cell" where
  "pd_median col = median (present col)"

text \<open>
  \<^verbatim>\<open>scipy.stats.median_abs_deviation(x, nan_policy="omit", scale=s)\<close>: the median of
  the absolute deviations from the median, both over the values that are present, divided
  by the scale. The only call passes the non-zero scale \<^verbatim>\<open>1/1.4826\<close>.
\<close>

definition median_abs_deviation :: "column \<Rightarrow> rat \<Rightarrow> cell" where
  "median_abs_deviation col scale =
     (case median (present col) of
        Num med \<Rightarrow>
          (case median (map (\<lambda>x. \<bar>x - med\<bar>) (present col)) of
             Num mad \<Rightarrow> Num (mad / scale)
           | _ \<Rightarrow> NA)
      | _ \<Rightarrow> NA)"

text \<open>
  The two statements of the function. A column holding a string cannot be robustized
  (TypeError).
\<close>

definition col_mad :: "column \<Rightarrow> cell" where
  "col_mad col = median_abs_deviation col (1 / 1.4826)"

definition mad_robustize_col :: "column \<Rightarrow> rat \<Rightarrow> error + fnum list" where
  "mad_robustize_col col epsilon =
     (if \<not> is_numeric col then Inl TypeError
      else Inr (map (\<lambda>v. cell_div (cell_sub v (pd_median col))
                         (cell_add (col_mad col) (Num epsilon)))
                  col))"

text \<open>
  The specification's reading, to compare with, in the arithmetic of the rationals and
  apart from the functions above: the observed values of a column are those that are not
  missing; the median is the middle value of the sorted values, or the mean of the two
  middle values; the normal-consistent MAD is 1.4826 times the median of the absolute
  deviations from the median.
\<close>

definition observed :: "column \<Rightarrow> rat list" where
  "observed col = [x. Num x \<leftarrow> col]"

definition middle :: "rat list \<Rightarrow> rat" where
  "middle xs =
     (if odd (length xs) then sort xs ! (length xs div 2)
      else (sort xs ! (length xs div 2 - 1) + sort xs ! (length xs div 2)) / 2)"

definition normal_mad :: "rat list \<Rightarrow> rat" where
  "normal_mad xs = 1.4826 * middle (map (\<lambda>x. \<bar>x - middle xs\<bar>) xs)"

section \<open>Cell-count regression\<close>

text \<open>
  \<^verbatim>\<open>ols(f"{feature} ~ {cc_col}", data=df).fit().resid\<close>. The formula is text: it
  means the regression of one column on the other, with an intercept, only when both
  names are plain identifiers, and patsy turns a column of strings into a categorical
  variable. Neither case is followed here: the model stops with \<open>Unmodelled\<close>.
\<close>

definition py_keywords :: "string list" where
  "py_keywords =
     [''False'', ''None'', ''True'', ''and'', ''as'', ''assert'', ''async'', ''await'',
      ''break'', ''class'', ''continue'', ''def'', ''del'', ''elif'', ''else'', ''except'',
      ''finally'', ''for'', ''from'', ''global'', ''if'', ''import'', ''in'', ''is'',
      ''lambda'', ''nonlocal'', ''not'', ''or'', ''pass'', ''raise'', ''return'', ''try'',
      ''while'', ''with'', ''yield'']"

definition is_identifier :: "string \<Rightarrow> bool" where
  "is_identifier s =
     (case s of
        [] \<Rightarrow> False
      | c # cs \<Rightarrow>
          c \<in> set ''abcdefghijklmnopqrstuvwxyzABCDEFGHIJKLMNOPQRSTUVWXYZ_''
          \<and> list_all
              (\<lambda>d. d \<in> set ''abcdefghijklmnopqrstuvwxyzABCDEFGHIJKLMNOPQRSTUVWXYZ_0123456789'')
              cs
          \<and> s \<notin> set py_keywords)"

text \<open>
  The rows used in the fit are the rows where both variables are present (patsy drops
  the others).
\<close>

definition complete_rows :: "column \<Rightarrow> column \<Rightarrow> (rat \<times> rat) list" where
  "complete_rows y x =
     concat (map (\<lambda>(cy, cx). case (cy, cx) of (Num a, Num b) \<Rightarrow> [(a, b)] | _ \<Rightarrow> []) (zip y x))"

text \<open>
  The residuals of the least-squares line through the complete rows. statsmodels solves
  by pseudo-inverse, so a regressor without variation does not raise: the fitted value
  is then the mean of the response. Only fitted values and residuals are modelled, not
  the coefficients. The residual series is indexed by the rows that were used; assigned
  to a column of the frame, it leaves the dropped rows missing. A fit without any
  complete row raises.
\<close>

definition ols_resid :: "column \<Rightarrow> column \<Rightarrow> error + column" where
  "ols_resid y x =
     (if \<not> (is_numeric y \<and> is_numeric x) then Inl Unmodelled
      else
        let rows = complete_rows y x;
            n = of_nat (length rows)
        in if rows = [] then Inl ValueError
           else
             let ybar = sum_list (map fst rows) / n;
                 xbar = sum_list (map snd rows) / n;
                 sxx = sum_list (map (\<lambda>(a, b). (b - xbar) * (b - xbar)) rows);
                 sxy = sum_list (map (\<lambda>(a, b). (b - xbar) * (a - ybar)) rows);
                 slope = (if sxx = 0 then 0 else sxy / sxx);
                 intercept = ybar - slope * xbar
             in Inr (map (\<lambda>(cy, cx). case (cy, cx) of
                                        (Num a, Num b) \<Rightarrow> Num (a - (intercept + slope * b))
                                      | _ \<Rightarrow> NA)
                       (zip y x)))"

text \<open>One fit: both variables are looked up in the frame as it is at that moment.\<close>

definition ols_fit_resid :: "table \<Rightarrow> string \<Rightarrow> string \<Rightarrow> error + column" where
  "ols_fit_resid df feature cc_col =
     (if \<not> (is_identifier feature \<and> is_identifier cc_col) then Inl Unmodelled
      else
        case (map_of df feature, map_of df cc_col) of
          (Some y, Some x) \<Rightarrow> ols_resid y x
        | _ \<Rightarrow> Inl PatsyError)"

text \<open>\<^verbatim>\<open>df[name] = values\<close>: an existing column is replaced where it stands.\<close>

definition set_column :: "table \<Rightarrow> string \<Rightarrow> column \<Rightarrow> table" where
  "set_column df name values =
     (if name \<in> set (map fst df)
      then map (\<lambda>(n, col). if n = name then (n, values) else (n, col)) df
      else df @ [(name, values)])"

text \<open>
  The loop over the feature names, which were collected before the loop: each step
  fits on the frame as the steps before have left it, and overwrites the feature.
\<close>

fun regress_features :: "table \<Rightarrow> string \<Rightarrow> string list \<Rightarrow> error + table" where
  "regress_features df cc_col [] = Inr df"
| "regress_features df cc_col (feature # rest) =
     (case ols_fit_resid df feature cc_col of
        Inl e \<Rightarrow> Inl e
      | Inr resid \<Rightarrow> regress_features (set_column df feature resid) cc_col rest)"

text \<open>\<^verbatim>\<open>df.rename(columns={old: new})\<close>; a name that is absent is ignored.\<close>

definition rename_column :: "table \<Rightarrow> string \<Rightarrow> string \<Rightarrow> table" where
  "rename_column df old new = map (\<lambda>(n, col). (if n = old then new else n, col)) df"

definition regress_out_cell_counts :: "table \<Rightarrow> string \<Rightarrow> string option \<Rightarrow> error + table" where
  "regress_out_cell_counts df cc_col cc_rename =
     (case regress_features df cc_col (feature_cols df) of
        Inl e \<Rightarrow> Inl e
      | Inr df' \<Rightarrow>
          (case cc_rename of
             None \<Rightarrow> Inr df'
           | Some new \<Rightarrow> Inr (rename_column df' cc_col new)))"

text \<open>
  Covariance and variance of two columns over their complete rows; the Pearson
  correlation is their quotient \<open>cov / sqrt (var x * var y)\<close>, so it is zero exactly
  when it is defined and the covariance is zero.
\<close>

definition covariance :: "column \<Rightarrow> column \<Rightarrow> rat" where
  "covariance y x =
     (let rows = complete_rows y x;
          n = of_nat (length rows);
          ybar = sum_list (map fst rows) / n;
          xbar = sum_list (map snd rows) / n
      in sum_list (map (\<lambda>(a, b). (a - ybar) * (b - xbar)) rows) / n)"

section \<open>The loader\<close>

text \<open>
  Arguments that the checks inspect by type are dynamic values. The object store and the
  dataset library are outside the program: they are a parameter of the model, and every
  use of them is recorded as an event, next to the log lines, in the order of execution.
  A log line is recorded with the values formatted into it.
\<close>

datatype pyval = PyNone | PyStr string | PyList "string list" | PyOther

datatype log_msg =
    LoadingColumns "string list"
  | LoadingProfilesFrom string
  | FoundFiles nat
  | LoadComponent string
  | WritingTo string string

datatype event =
    LogInfo log_msg
  | DsDataset string "string list"
  | ToTable "string list option"
  | WriteTable string

record ('d, 't) remote =
  ds_dataset :: "string \<Rightarrow> string list \<Rightarrow> error + 'd"
  files :: "'d \<Rightarrow> nat"
  to_table :: "'d \<Rightarrow> string list option \<Rightarrow> error + 't"

definition is_remote :: "event \<Rightarrow> bool" where
  "is_remote ev = (case ev of LogInfo m \<Rightarrow> False | _ \<Rightarrow> True)"

definition ends_with_parquet :: "pyval \<Rightarrow> bool" where
  "ends_with_parquet output = (case output of PyStr s \<Rightarrow> suffix ''.parquet'' s | _ \<Rightarrow> False)"

definition is_list :: "pyval \<Rightarrow> bool" where
  "is_list v = (case v of PyList xs \<Rightarrow> True | _ \<Rightarrow> False)"

definition is_str :: "pyval \<Rightarrow> bool" where
  "is_str v = (case v of PyStr s \<Rightarrow> True | _ \<Rightarrow> False)"

definition msg_output_str :: string where
  "msg_output_str = ''`output` must be a string''"

definition msg_output_parquet :: string where
  "msg_output_parquet = ''`output` must end with .parquet''"

definition msg_columns :: string where
  "msg_columns = ''`columns` must be a list''"

definition msg_component :: string where
  "msg_component =
     ''`component` must be '' @ [CHR 0x27] @ ''profiles'' @ [CHR 0x27] @ '' or ''
       @ [CHR 0x27] @ ''load_data_csv'' @ [CHR 0x27]"

definition msg_plate :: string where
  "msg_plate = ''`plate` must be None if `batch` is None''"

text \<open>
  The function returns the trace of events and either the exception or the value
  returned: nothing when the table was written to \<open>output\<close>, the table otherwise.
\<close>

definition load ::
  "('d, 't) remote \<Rightarrow> string \<Rightarrow> string \<Rightarrow> string \<Rightarrow> string option \<Rightarrow> string option
     \<Rightarrow> pyval \<Rightarrow> pyval \<Rightarrow> event list \<times> (error + 't option)" where
  "load env dataset source component batch plate columns output =
     (if output \<noteq> PyNone \<and> \<not> is_str output then ([], Inl (AssertionError msg_output_str))
      else if output \<noteq> PyNone \<and> \<not> ends_with_parquet output
      then ([], Inl (AssertionError msg_output_parquet))
      else if columns \<noteq> PyNone \<and> \<not> is_list columns
      then ([], Inl (AssertionError msg_columns))
      else
        let log1 = (case columns of PyList cs \<Rightarrow> [LogInfo (LoadingColumns cs)] | _ \<Rightarrow> [])
        in if component \<notin> set [''profiles'', ''load_data_csv'']
           then (log1, Inl (AssertionError msg_component))
           else if batch = None \<and> plate \<noteq> None
           then (log1, Inl (AssertionError msg_plate))
           else
             let dataset_source =
                   ''cellpainting-gallery/'' @ dataset @ ''/'' @ source @ ''/workspace/profiles'';
                 dataset_source =
                   (case batch of
                      None \<Rightarrow> dataset_source
                    | Some b \<Rightarrow>
                        (let with_batch = dataset_source @ ''/'' @ b
                         in case plate of
                              None \<Rightarrow> with_batch
                            | Some p \<Rightarrow> with_batch @ ''/'' @ p));
                 schema = [''dataset'', ''source'', ''workspace'', component, ''batch'', ''plate''];
                 cols = (case columns of PyList cs \<Rightarrow> Some cs | _ \<Rightarrow> None);
                 trace = log1 @ [LogInfo (LoadingProfilesFrom dataset_source),
                                 DsDataset dataset_source schema]
             in case ds_dataset env dataset_source schema of
                  Inl e \<Rightarrow> (trace, Inl e)
                | Inr d \<Rightarrow>
                    (let trace = trace @ [LogInfo (FoundFiles (files env d)),
                                          LogInfo (LoadComponent component),
                                          ToTable cols]
                     in case to_table env d cols of
                          Inl e \<Rightarrow> (trace, Inl e)
                        | Inr df \<Rightarrow>
                            (case output of
                               PyStr out \<Rightarrow>
                                 (trace @ [LogInfo (WritingTo component out), WriteTable out],
                                  Inr None)
                             | _ \<Rightarrow> (trace, Inr (Some df)))))"

text \<open>
  The preconditions, as the interface states them: the component is one of the two
  names, an output that is given ends with \<^verbatim>\<open>.parquet\<close>, columns that are given
  are a list, and a plate is given only with a batch.
\<close>

definition precondition_violated ::
  "string \<Rightarrow> string option \<Rightarrow> string option \<Rightarrow> pyval \<Rightarrow> pyval \<Rightarrow> bool" where
  "precondition_violated component batch plate columns output =
     (component \<notin> {''profiles'', ''load_data_csv''}
      \<or> (output \<noteq> PyNone \<and> \<not> ends_with_parquet output)
      \<or> (columns \<noteq> PyNone \<and> \<not> is_list columns)
      \<or> (plate \<noteq> None \<and> batch = None))"

definition assertion_messages :: "string list" where
  "assertion_messages =
     [msg_output_str, msg_output_parquet, msg_columns, msg_component, msg_plate]"

text \<open>The path as the interface describes it, from the dataset, source, batch and plate.\<close>

definition profiles_path :: "string \<Rightarrow> string \<Rightarrow> string option \<Rightarrow> string option \<Rightarrow> string" where
  "profiles_path dataset source batch plate =
     ''cellpainting-gallery/'' @ dataset @ ''/'' @ source @ ''/workspace/profiles''
       @ (case batch of None \<Rightarrow> [] | Some b \<Rightarrow> ''/'' @ b)
       @ (case plate of None \<Rightarrow> [] | Some p \<Rightarrow> ''/'' @ p)"

definition queries :: "event list \<Rightarrow> (string \<times> string list) list" where
  "queries trace =
     concat (map (\<lambda>ev. case ev of DsDataset path schema \<Rightarrow> [(path, schema)] | _ \<Rightarrow> []) trace)"

text \<open>A store that answers every query with an empty dataset, for the examples.\<close>

definition empty_store :: "(unit, table) remote" where
  "empty_store =
     \<lparr>ds_dataset = (\<lambda>path schema. Inr ()), files = (\<lambda>d. 0), to_table = (\<lambda>d cols. Inr [])\<rparr>"

section \<open>Example tables\<close>

definition example_wells :: table where
  "example_wells =
     [(''Metadata_Well'', [Str ''A1'', Str ''A1'', Str ''A2'']),
      (''Feature_X'', [Num 1, Num 3, Num 5])]"

definition example_wells_centred :: table where
  "example_wells_centred =
     [(''Metadata_Well'', [Str ''A1'', Str ''A1'', Str ''A2'']),
      (''Feature_X'', [Num (- 1), Num 1, Num 0])]"

definition single_missing :: table where
  "single_missing =
     [(''Metadata_Well'', [Str ''A1'', Str ''A2'', Str ''A2'']),
      (''Feature_X'', [NA, Num 1, Num 3])]"

definition single_missing_centred :: table where
  "single_missing_centred =
     [(''Metadata_Well'', [Str ''A1'', Str ''A2'', Str ''A2'']),
      (''Feature_X'', [NA, Num (- 1), Num 1])]"

definition example_counts :: table where
  "example_counts =
     [(''Metadata_Well'', [Str ''A1'', Str ''A2'', Str ''A3'']),
      (''Cells'', [Num 3, Num 1, Num 2]),
      (''Feature_X'', [Num 1, Num 2, Num 6])]"

definition example_series :: column where
  "example_series = [Num 1, NA, Num 2, Num 4, Num 10]"

definition flat_series :: column where
  "flat_series = [Num 1, NA, Num 1, Num 1, Num 5]"

section \<open>Properties of well-mean subtraction\<close>

lemma zip_map_zip:
  "zip ks (map g (zip ks vs)) = map (\<lambda>p. (fst p, g p)) (zip ks vs)"
proof (induction ks arbitrary: vs)
  case Nil
  then show ?case by simp
next
  case (Cons k ks)
  then show ?case by (cases vs) simp_all
qed

lemma group_rows_map_zip:
  "group_rows keys (map g (zip keys col)) k = map (\<lambda>v. g (k, v)) (group_rows keys col k)"
proof -
  have "filter (\<lambda>p. fst p = k) (map (\<lambda>p. (fst p, g p)) (zip keys col))
        = map (\<lambda>p. (fst p, g p)) (filter (\<lambda>p. fst p = k) (zip keys col))"
    by (simp add: filter_map o_def)
  then show ?thesis
    by (simp add: group_rows_def zip_map_zip o_def)
qed

lemma group_rows_transform:
  "k \<noteq> NA \<Longrightarrow> group_rows keys (transform_centre keys col) k
     = map (\<lambda>v. cell_sub v (mean (group_rows keys col k))) (group_rows keys col k)"
  unfolding transform_centre_def by (simp add: group_rows_map_zip)

lemma map_of_map_named:
  "map_of (map (\<lambda>(n, c). (n, h n c)) t) f = map_option (h f) (map_of t f)"
  by (induction t) auto

lemma subtract_well_mean_InrD:
  assumes "subtract_well_mean t = Inr t'"
  obtains keys where "map_of t ''Metadata_Well'' = Some keys"
    and "list_all (\<lambda>(n, col). is_numeric col) (filter (\<lambda>(n, col). is_feature n) t)"
    and "t' = map (\<lambda>(n, col). (n, if is_feature n then transform_centre keys col else col)) t"
proof -
  from assms obtain keys where k: "map_of t ''Metadata_Well'' = Some keys"
    by (auto simp: subtract_well_mean_def split: option.splits)
  with assms have n: "list_all (\<lambda>(n, col). is_numeric col) (filter (\<lambda>(n, col). is_feature n) t)"
    by (auto simp: subtract_well_mean_def split: if_splits)
  from assms k n have "t' = map (\<lambda>(n, col). if is_feature n then (n, transform_centre keys col) else (n, col)) t"
    by (auto simp: subtract_well_mean_def split: if_splits)
  also have "\<dots> = map (\<lambda>(n, col). (n, if is_feature n then transform_centre keys col else col)) t"
    by (rule map_cong) auto
  finally show ?thesis using that k n by blast
qed

lemma present_all_num:
  "is_numeric col \<Longrightarrow> list_all (\<lambda>c. c \<noteq> NA) col \<Longrightarrow> map Num (present col) = col"
proof (induction col)
  case Nil
  then show ?case by simp
next
  case (Cons c cs)
  then show ?case by (cases c) (simp_all add: is_numeric_def)
qed

lemma mean_centred_zero:
  assumes "xs \<noteq> []"
  shows "mean (map (\<lambda>v. cell_sub v (mean (map Num xs))) (map Num xs)) = Num 0"
proof -
  have p: "present (map Num xs) = xs" for xs
    by (induction xs) simp_all
  define m where "m = sum_list xs / of_nat (length xs)"
  have mean_xs: "mean (map Num xs) = Num m"
    using assms by (simp add: mean_def p m_def)
  have s: "sum_list (map (\<lambda>x. x - m) xs) = sum_list xs - of_nat (length xs) * m"
    by (induction xs) (simp_all add: algebra_simps)
  have z: "sum_list xs - of_nat (length xs) * m = 0"
    using assms by (simp add: m_def)
  have "map (\<lambda>v. cell_sub v (mean (map Num xs))) (map Num xs) = map Num (map (\<lambda>x. x - m) xs)"
    by (simp add: mean_xs)
  then have "mean (map (\<lambda>v. cell_sub v (mean (map Num xs))) (map Num xs))
             = mean (map Num (map (\<lambda>x. x - m) xs))"
    by (simp only:)
  also have "\<dots> = Num (sum_list (map (\<lambda>x. x - m) xs) / of_nat (length xs))"
    using assms unfolding mean_def p by simp
  also have "\<dots> = Num 0"
    by (simp only: s z) simp
  finally show ?thesis .
qed

lemma group_rows_subset: "set (group_rows keys col k) \<subseteq> set col"
  by (auto simp: group_rows_def dest: set_zip_rightD)

lemma group_rows_nonempty:
  "k \<in> set keys \<Longrightarrow> length col = length keys \<Longrightarrow> group_rows keys col k \<noteq> []"
proof -
  assume k: "k \<in> set keys" and l: "length col = length keys"
  then obtain i where i: "i < length keys" "keys ! i = k"
    by (auto simp: in_set_conv_nth)
  with l have "(k, col ! i) \<in> set (zip keys col)"
    by (auto simp: set_zip)
  then show ?thesis
    by (force simp: group_rows_def filter_empty_conv)
qed

lemma wf_table_length:
  "wf_table t \<Longrightarrow> map_of t n = Some col \<Longrightarrow> length col = nrows t"
  by (auto simp: wf_table_def list_all_iff dest!: map_of_SomeD)

lemma subtract_well_mean_keys:
  "subtract_well_mean t = Inr t' \<Longrightarrow> \<exists>keys. map_of t ''Metadata_Well'' = Some keys"
  by (auto simp: subtract_well_mean_def split: option.splits)

lemma subtract_well_mean_map_of:
  assumes "subtract_well_mean t = Inr t'" and "map_of t ''Metadata_Well'' = Some keys"
  shows "map_of t' n =
           map_option (\<lambda>col. if is_feature n then transform_centre keys col else col) (map_of t n)"
proof -
  from assms(1) obtain keys0 where k: "map_of t ''Metadata_Well'' = Some keys0"
    and t': "t' = map (\<lambda>(n, col). (n, if is_feature n then transform_centre keys0 col else col)) t"
    by (rule subtract_well_mean_InrD)
  from k assms(2) have "keys0 = keys" by simp
  with t' have "t' = map (\<lambda>(n, col). (n, if is_feature n then transform_centre keys col else col)) t"
    by (simp only:)
  then show ?thesis by (simp only: map_of_map_named)
qed

lemma subtract_well_mean_numeric:
  assumes "subtract_well_mean t = Inr t'" and "map_of t n = Some col" and "is_feature n"
  shows "is_numeric col"
proof -
  from assms(1) have "list_all (\<lambda>(n, col). is_numeric col) (filter (\<lambda>(n, col). is_feature n) t)"
    by (rule subtract_well_mean_InrD)
  with assms(2,3) show ?thesis
    by (auto simp: list_all_iff dest!: map_of_SomeD)
qed

lemma metadata_well_not_feature: "\<not> is_feature ''Metadata_Well''"
  by (simp add: is_feature_def)

lemma no_missing_column:
  "no_missing t \<Longrightarrow> map_of t n = Some col \<Longrightarrow> list_all (\<lambda>c. c \<noteq> NA) col"
  by (auto simp: no_missing_def list_all_iff dest!: map_of_SomeD)

lemma group_rows_absent: "k \<notin> set keys \<Longrightarrow> group_rows keys col k = []"
  by (auto simp: group_rows_def filter_empty_conv dest: set_zip_leftD)

lemma group_rows_Cons:
  "group_rows (k' # ks) (c # cs) k = (if k' = k then c # group_rows ks cs k else group_rows ks cs k)"
  by (simp add: group_rows_def)

lemma group_rows_single:
  "length col = length keys \<Longrightarrow> i < length keys \<Longrightarrow> count_list keys (keys ! i) = 1
     \<Longrightarrow> group_rows keys col (keys ! i) = [col ! i]"
proof (induction keys arbitrary: col i)
  case Nil
  then show ?case by simp
next
  case (Cons k ks)
  then obtain c cs where col: "col = c # cs" by (cases col) auto
  show ?case
  proof (cases i)
    case 0
    with Cons.prems have "count_list ks k = 0" by simp
    then have "k \<notin> set ks" by (simp add: count_list_0_iff)
    then show ?thesis using 0 col by (simp add: group_rows_Cons group_rows_absent)
  next
    case (Suc j)
    with Cons.prems have j: "j < length ks" by simp
    then have "ks ! j \<in> set ks" by simp
    then have pos: "count_list ks (ks ! j) \<noteq> 0" by (simp add: count_list_0_iff)
    from Cons.prems Suc have c1: "count_list (k # ks) (ks ! j) = 1" by simp
    with pos have ne: "k \<noteq> ks ! j" by (auto split: if_splits)
    with c1 have "count_list ks (ks ! j) = 1" by simp
    with Cons.IH [of cs j] Cons.prems col j have "group_rows ks cs (ks ! j) = [cs ! j]" by simp
    then show ?thesis using Suc col ne by (simp add: group_rows_Cons)
  qed
qed

lemma transform_centre_nth:
  "length col = length keys \<Longrightarrow> i < length keys \<Longrightarrow>
   transform_centre keys col ! i =
     (if keys ! i = NA then NA else cell_sub (col ! i) (mean (group_rows keys col (keys ! i))))"
  by (simp add: transform_centre_def)


lemma is_numeric_nth: "is_numeric col \<Longrightarrow> i < length col \<Longrightarrow> col ! i \<noteq> Str s"
  by (auto simp: is_numeric_def list_all_length split: cell.splits)






lemma example_wells_run: "subtract_well_mean example_wells = Inr example_wells_centred"
  by (simp add: subtract_well_mean_def feature_cols_def example_wells_def example_wells_centred_def
      is_feature_def is_numeric_def transform_centre_def group_rows_def mean_def)

lemma single_missing_run: "subtract_well_mean single_missing = Inr single_missing_centred"
  by (simp add: subtract_well_mean_def feature_cols_def single_missing_def single_missing_centred_def
      is_feature_def is_numeric_def transform_centre_def group_rows_def mean_def)

lemma wf_example_wells: "wf_table example_wells"
  by (simp add: wf_table_def nrows_def example_wells_def)

lemma wf_single_missing: "wf_table single_missing"
  by (simp add: wf_table_def nrows_def single_missing_def)

lemma feature_x_is_feature: "is_feature ''Feature_X''"
  by (simp add: is_feature_def)

text \<open>
  A frame with the well column, a row with a key and numeric feature columns, at least
  one, is accepted: the call returns.
\<close>

lemma subtract_well_mean_returns:
  assumes "map_of t ''Metadata_Well'' = Some keys"
    and "feature_cols t \<noteq> []"
    and "\<not> list_all (\<lambda>k. k = NA) keys"
    and "list_all (\<lambda>(n, col). is_numeric col) (filter (\<lambda>(n, col). is_feature n) t)"
  shows "\<exists>t'. subtract_well_mean t = Inr t'"
  using assms by (simp add: subtract_well_mean_def)

text \<open>
  A frame without a feature column, or without a row, is refused with ValueError.
\<close>

lemma subtract_well_mean_nothing_to_centre:
  "subtract_well_mean [(''Metadata_Well'', [Str ''A1''])] = Inl ValueError"
  "subtract_well_mean [(''Metadata_Well'', []), (''Feature_X'', [])] = Inl ValueError"
  by (simp_all add: subtract_well_mean_def feature_cols_def is_feature_def)

text \<open>
  Claim C4. For the table with Metadata_Well = [A1, A1, A2] and Feature_X = [1, 3, 5],
  subtract_well_mean returns a table whose Feature_X column is [-1, 1, 0]; the well
  column is returned as it was.
\<close>

theorem subtract_well_mean_example:
  "subtract_well_mean
     [(''Metadata_Well'', [Str ''A1'', Str ''A1'', Str ''A2'']),
      (''Feature_X'', [Num 1, Num 3, Num 5])]
   = Inr [(''Metadata_Well'', [Str ''A1'', Str ''A1'', Str ''A2'']),
          (''Feature_X'', [Num (- 1), Num 1, Num 0])]"
  by (simp add: subtract_well_mean_def feature_cols_def example_wells_def is_feature_def is_numeric_def
      transform_centre_def group_rows_def mean_def)

text \<open>
  Claim C5, as the code has it. The claim says that every feature value of a well group
  with exactly one row is exactly zero in the output. That holds for the values that are
  present; a missing value of such a row stays missing, since the mean of no values is
  missing too. Amended: in the output of subtract_well_mean, a row that is the only row
  of its well has zero in every feature column where its input value is present, and a
  missing value where its input value is missing.
\<close>

theorem subtract_well_mean_single_row:
  assumes ret: "subtract_well_mean t = Inr t'"
    and wf: "wf_table t"
    and keys: "map_of t ''Metadata_Well'' = Some keys"
    and f: "is_feature f"
    and col: "map_of t f = Some col"
    and ys: "map_of t' f = Some ys"
    and i: "i < length keys"
    and kna: "keys ! i \<noteq> NA"
    and one: "count_list keys (keys ! i) = 1"
  shows "ys ! i = (if col ! i = NA then NA else Num 0)"
proof -
  have len: "length col = length keys"
    using wf col keys by (simp add: wf_table_length)
  have "ys = transform_centre keys col"
    using subtract_well_mean_map_of [OF ret keys, of f] f col ys by simp
  then have "ys ! i = cell_sub (col ! i) (mean (group_rows keys col (keys ! i)))"
    using len i kna by (simp add: transform_centre_nth)
  also have "group_rows keys col (keys ! i) = [col ! i]"
    using len i one by (rule group_rows_single)
  finally have y: "ys ! i = cell_sub (col ! i) (mean [col ! i])" .
  have "is_numeric col" using ret col f by (rule subtract_well_mean_numeric)
  then have ns: "col ! i \<noteq> Str s" for s
    using i len by (simp add: is_numeric_nth)
  show ?thesis
  proof (cases "col ! i")
    case (Num x)
    then show ?thesis unfolding y by (simp add: mean_def)
  next
    case (Str s)
    with ns show ?thesis by blast
  next
    case NA
    then show ?thesis unfolding y by simp
  qed
qed

theorem subtract_well_mean_single_row_witness:
  "subtract_well_mean single_missing = Inr single_missing_centred
   \<and> wf_table single_missing
   \<and> map_of single_missing ''Metadata_Well'' = Some [Str ''A1'', Str ''A2'', Str ''A2'']
   \<and> is_feature ''Feature_X''
   \<and> map_of single_missing ''Feature_X'' = Some [NA, Num 1, Num 3]
   \<and> map_of single_missing_centred ''Feature_X'' = Some [NA, Num (- 1), Num 1]
   \<and> (0::nat) < length [Str ''A1'', Str ''A2'', Str ''A2'']
   \<and> [Str ''A1'', Str ''A2'', Str ''A2''] ! 0 \<noteq> NA
   \<and> count_list [Str ''A1'', Str ''A2'', Str ''A2'']
        ([Str ''A1'', Str ''A2'', Str ''A2''] ! 0) = 1
   \<and> [NA, Num (- 1), Num 1] ! 0 = (if [NA, Num 1, Num 3] ! 0 = NA then NA else Num 0)"
proof -
  have keys: "map_of single_missing ''Metadata_Well'' = Some [Str ''A1'', Str ''A2'', Str ''A2'']"
    by (simp add: single_missing_def)
  have col: "map_of single_missing ''Feature_X'' = Some [NA, Num 1, Num 3]"
    by (simp add: single_missing_def)
  have ys: "map_of single_missing_centred ''Feature_X'' = Some [NA, Num (- 1), Num 1]"
    by (simp add: single_missing_centred_def)
  have i: "(0::nat) < length [Str ''A1'', Str ''A2'', Str ''A2'']"
    by simp
  have kna: "[Str ''A1'', Str ''A2'', Str ''A2''] ! 0 \<noteq> NA"
    by simp
  have one: "count_list [Str ''A1'', Str ''A2'', Str ''A2'']
               ([Str ''A1'', Str ''A2'', Str ''A2''] ! 0) = 1"
    by simp
  note concl = subtract_well_mean_single_row
    [OF single_missing_run wf_single_missing keys feature_x_is_feature col ys i kna one]
  show ?thesis
    using single_missing_run wf_single_missing keys feature_x_is_feature col ys i kna one concl
    by blast
qed

text \<open>
  The claim as stated fails on a well whose only row has a missing feature value: the
  well A1 has exactly one row, and its Feature_X comes back missing, not zero.
\<close>

theorem single_row_well_missing_counterexample:
  "subtract_well_mean
     [(''Metadata_Well'', [Str ''A1'', Str ''A2'', Str ''A2'']),
      (''Feature_X'', [NA, Num 1, Num 3])]
   = Inr [(''Metadata_Well'', [Str ''A1'', Str ''A2'', Str ''A2'']),
          (''Feature_X'', [NA, Num (- 1), Num 1])]
   \<and> count_list [Str ''A1'', Str ''A2'', Str ''A2''] (Str ''A1'') = 1
   \<and> [NA, Num (- 1), Num 1] ! 0 \<noteq> Num 0"
  by (simp add: subtract_well_mean_def feature_cols_def is_feature_def is_numeric_def
      transform_centre_def group_rows_def mean_def)

text \<open>
  Claim C6. For a table without missing values, in the output of subtract_well_mean the
  mean of every feature column over every well group is exactly zero (the mean is
  defined and equals 0 in exact arithmetic).
\<close>

theorem subtract_well_mean_group_mean_zero:
  assumes ret: "subtract_well_mean t = Inr t'"
    and wf: "wf_table t"
    and nm: "no_missing t"
    and keys: "map_of t' ''Metadata_Well'' = Some keys"
    and f: "is_feature f" "map_of t' f = Some ys"
    and k: "k \<in> set keys"
  shows "mean (group_rows keys ys k) = Num 0"
proof -
  from ret obtain keys0 where k0: "map_of t ''Metadata_Well'' = Some keys0"
    using subtract_well_mean_keys by blast
  note look = subtract_well_mean_map_of [OF ret k0]
  from keys k0 look [of "''Metadata_Well''"] have keys_eq: "keys0 = keys"
    by (simp add: metadata_well_not_feature)
  from f look [of f] obtain col where col: "map_of t f = Some col"
    and ys: "ys = transform_centre keys col"
    by (auto simp: keys_eq)
  have len: "length col = length keys"
    using wf col k0 by (simp add: wf_table_length keys_eq)
  have kna: "k \<noteq> NA"
    using no_missing_column [OF nm k0] k by (auto simp: keys_eq list_all_iff)
  define g where "g = group_rows keys col k"
  have g_sub: "set g \<subseteq> set col"
    unfolding g_def by (rule group_rows_subset)
  have "is_numeric col" using ret col f(1) by (rule subtract_well_mean_numeric)
  with g_sub have g_num: "is_numeric g"
    by (auto simp: is_numeric_def list_all_iff)
  have g_nm: "list_all (\<lambda>c. c \<noteq> NA) g"
    using no_missing_column [OF nm col] g_sub by (auto simp: list_all_iff)
  have g_eq: "map Num (present g) = g"
    using g_num g_nm by (rule present_all_num)
  have "g \<noteq> []"
    unfolding g_def using k len by (rule group_rows_nonempty)
  with g_eq have ne: "present g \<noteq> []" by auto
  have "group_rows keys ys k = map (\<lambda>v. cell_sub v (mean g)) g"
    unfolding ys g_def using kna by (rule group_rows_transform)
  also have "\<dots> = map (\<lambda>v. cell_sub v (mean (map Num (present g)))) (map Num (present g))"
    by (simp only: g_eq)
  finally show ?thesis
    using mean_centred_zero [OF ne] by (simp only:)
qed

theorem subtract_well_mean_group_mean_zero_witness:
  "subtract_well_mean example_wells = Inr example_wells_centred
   \<and> wf_table example_wells
   \<and> no_missing example_wells
   \<and> map_of example_wells_centred ''Metadata_Well'' = Some [Str ''A1'', Str ''A1'', Str ''A2'']
   \<and> is_feature ''Feature_X''
   \<and> map_of example_wells_centred ''Feature_X'' = Some [Num (- 1), Num 1, Num 0]
   \<and> Str ''A1'' \<in> set [Str ''A1'', Str ''A1'', Str ''A2'']
   \<and> mean (group_rows [Str ''A1'', Str ''A1'', Str ''A2''] [Num (- 1), Num 1, Num 0] (Str ''A1''))
       = Num 0"
proof -
  have nm: "no_missing example_wells"
    by (simp add: no_missing_def example_wells_def)
  have keys: "map_of example_wells_centred ''Metadata_Well''
                = Some [Str ''A1'', Str ''A1'', Str ''A2'']"
    by (simp add: example_wells_centred_def)
  have ys: "map_of example_wells_centred ''Feature_X'' = Some [Num (- 1), Num 1, Num 0]"
    by (simp add: example_wells_centred_def)
  have k: "Str ''A1'' \<in> set [Str ''A1'', Str ''A1'', Str ''A2'']"
    by simp
  note concl = subtract_well_mean_group_mean_zero
    [OF example_wells_run wf_example_wells nm keys feature_x_is_feature ys k]
  show ?thesis
    using example_wells_run wf_example_wells nm keys feature_x_is_feature ys k concl
    by blast
qed



section \<open>Properties of MAD robustization\<close>

lemma present_observed: "present col = observed col"
proof (induction col)
  case Nil
  then show ?case by (simp add: observed_def)
next
  case (Cons c cs)
  then show ?case by (cases c) (simp_all add: observed_def)
qed

lemma median_middle:
  assumes "xs \<noteq> []"
  shows "median xs = Num (middle xs)"
proof -
  have "sort xs \<noteq> []"
    using assms by (metis length_0_conv length_sort)
  then show ?thesis
    by (simp add: median_def middle_def Let_def)
qed

lemma pd_median_middle:
  "observed col \<noteq> [] \<Longrightarrow> pd_median col = Num (middle (observed col))"
  by (simp add: pd_median_def present_observed median_middle)

lemma col_mad_normal:
  assumes "observed col \<noteq> []"
  shows "col_mad col = Num (normal_mad (observed col))"
proof -
  let ?xs = "observed col"
  have m: "median ?xs = Num (middle ?xs)"
    using assms by (rule median_middle)
  have "map (\<lambda>x. \<bar>x - middle ?xs\<bar>) ?xs \<noteq> []"
    using assms by simp
  then have d: "median (map (\<lambda>x. \<bar>x - middle ?xs\<bar>) ?xs)
                  = Num (middle (map (\<lambda>x. \<bar>x - middle ?xs\<bar>) ?xs))"
    by (rule median_middle)
  show ?thesis
    by (simp add: col_mad_def median_abs_deviation_def present_observed m d normal_mad_def)
qed

lemma observed_nth:
  "i < length col \<Longrightarrow> col ! i = Num x \<Longrightarrow> observed col \<noteq> []"
proof -
  assume "i < length col" and "col ! i = Num x"
  then have "Num x \<in> set col" by (metis nth_mem)
  then show ?thesis by (auto simp: observed_def intro!: bexI [of _ "Num x"])
qed

lemma is_numeric_cases:
  "is_numeric col \<Longrightarrow> i < length col \<Longrightarrow> col ! i = NA \<or> (\<exists>x. col ! i = Num x)"
  by (cases "col ! i") (auto simp: is_numeric_def list_all_length split: cell.splits)

lemma mad_robustize_col_InrD:
  assumes "mad_robustize_col col epsilon = Inr out"
  shows "is_numeric col"
    and "out = map (\<lambda>v. cell_div (cell_sub v (pd_median col))
                       (cell_add (col_mad col) (Num epsilon))) col"
  using assms by (auto simp: mad_robustize_col_def split: if_splits)

lemma mad_robustize_col_present:
  assumes out: "out = map (\<lambda>v. cell_div (cell_sub v (pd_median col))
                       (cell_add (col_mad col) (Num epsilon))) col"
    and i: "i < length col" and x: "col ! i = Num x"
  shows "out ! i =
           (let n = x - middle (observed col); q = normal_mad (observed col) + epsilon
            in if q \<noteq> 0 then Fin (n / q)
               else if n = 0 then NaN
               else if 0 < n then PosInf else NegInf)"
proof -
  have ne: "observed col \<noteq> []"
    using i x by (rule observed_nth)
  show ?thesis
    using i by (simp add: out x pd_median_middle [OF ne] col_mad_normal [OF ne] Let_def)
qed

lemma mad_robustize_col_absent:
  assumes out: "out = map (\<lambda>v. cell_div (cell_sub v (pd_median col))
                       (cell_add (col_mad col) (Num epsilon))) col"
    and i: "i < length col" and x: "col ! i = NA"
  shows "out ! i = NaN"
  using i by (simp add: out x)

lemma is_numeric_filter: "is_numeric col \<Longrightarrow> is_numeric (filter P col)"
  by (simp add: is_numeric_def list_all_iff)

lemma observed_filter: "observed (filter (\<lambda>c. c \<noteq> NA) col) = observed col"
proof (induction col)
  case Nil
  then show ?case by simp
next
  case (Cons c cs)
  then show ?case by (cases c) (simp_all add: observed_def)
qed

lemma present_positions_map:
  "map snd (filter (\<lambda>p. fst p \<noteq> NA) (zip col (map f col))) = map f (filter (\<lambda>c. c \<noteq> NA) col)"
  by (induction col) simp_all

lemma is_numeric_example_series: "is_numeric example_series"
  by (simp add: is_numeric_def example_series_def)

lemma observed_example_series: "observed example_series = [1, 2, 4, 10]"
  by (simp add: observed_def example_series_def)

lemma middle_example_series: "middle (observed example_series) = 3"
  by (simp add: observed_example_series middle_def)

lemma normal_mad_example_series: "normal_mad (observed example_series) = 22239 / 10000"
  by (simp add: observed_example_series normal_mad_def middle_def)

lemma observed_flat_series: "observed flat_series = [1, 1, 1, 5]"
  by (simp add: observed_def flat_series_def)

lemma normal_mad_flat_series: "normal_mad (observed flat_series) = 0"
  by (simp add: observed_flat_series normal_mad_def middle_def)

lemma flat_series_run:
  "mad_robustize_col flat_series 1 = Inr [Fin 0, NaN, Fin 0, Fin 0, Fin 4]"
proof -
  have ne: "observed flat_series \<noteq> []"
    by (simp add: observed_flat_series)
  have m: "pd_median flat_series = Num 1"
    by (simp add: pd_median_middle [OF ne] observed_flat_series middle_def)
  have d: "col_mad flat_series = Num 0"
    by (simp add: col_mad_normal [OF ne] normal_mad_flat_series)
  show ?thesis
    unfolding mad_robustize_col_def m d
    by (simp add: is_numeric_def flat_series_def)
qed


text \<open>
  Claim C3. For every numeric column and every epsilon, mad_robustize_col returns a
  column of the same length whose value at a position where the input holds x is
  (x - median) / (mad + epsilon), with the median of the observed values and
  mad = 1.4826 times the median of their absolute deviations from it: dividing by the
  scale 1/1.4826 is multiplying by 1.4826. The quotient is the float quotient: where
  mad + epsilon is zero it is undefined for x equal to the median and infinite, with the
  sign of x - median, otherwise. A missing position stays missing.
\<close>

theorem mad_robustize_col_formula:
  assumes "is_numeric col"
  shows "\<exists>out. mad_robustize_col col epsilon = Inr out
           \<and> length out = length col
           \<and> (\<forall>i x. i < length col \<and> col ! i = Num x \<longrightarrow>
                 out ! i =
                   (let n = x - middle (observed col); q = normal_mad (observed col) + epsilon
                    in if q \<noteq> 0 then Fin (n / q)
                       else if n = 0 then NaN
                       else if 0 < n then PosInf else NegInf))
           \<and> (\<forall>i. i < length col \<and> col ! i = NA \<longrightarrow> out ! i = NaN)"
proof -
  define out where "out = map (\<lambda>v. cell_div (cell_sub v (pd_median col))
                       (cell_add (col_mad col) (Num epsilon))) col"
  have run: "mad_robustize_col col epsilon = Inr out"
    using assms by (simp add: mad_robustize_col_def out_def)
  have len: "length out = length col"
    by (simp add: out_def)
  from run len mad_robustize_col_present [OF out_def] mad_robustize_col_absent [OF out_def]
  show ?thesis by blast
qed

theorem mad_robustize_col_formula_witness:
  "is_numeric example_series
   \<and> mad_robustize_col example_series 1
       = Inr [Fin (- (20000 / 32239)), NaN, Fin (- (10000 / 32239)),
              Fin (10000 / 32239), Fin (70000 / 32239)]
   \<and> middle (observed example_series) = 3
   \<and> normal_mad (observed example_series) = 22239 / 10000"
proof -
  from mad_robustize_col_formula [OF is_numeric_example_series, of 1]
  obtain out where run: "mad_robustize_col example_series 1 = Inr out"
    and len: "length out = length example_series"
    and pres: "\<And>i x. i < length example_series \<Longrightarrow> example_series ! i = Num x \<Longrightarrow>
                 out ! i =
                   (let n = x - middle (observed example_series);
                        q = normal_mad (observed example_series) + 1
                    in if q \<noteq> 0 then Fin (n / q)
                       else if n = 0 then NaN
                       else if 0 < n then PosInf else NegInf)"
    and miss: "\<And>i. i < length example_series \<Longrightarrow> example_series ! i = NA \<Longrightarrow> out ! i = NaN"
    by blast
  have l: "length out = 5"
    using len by (simp add: example_series_def)
  have n: "length example_series = 5"
    by (simp add: example_series_def)
  have e: "example_series ! 0 = Num 1" "example_series ! 1 = NA" "example_series ! 2 = Num 2"
    "example_series ! 3 = Num 4" "example_series ! 4 = Num 10"
    by (simp_all add: example_series_def)
  have "out ! 0 = Fin (- (20000 / 32239))"
    using pres [OF _ e(1)] by (simp add: n middle_example_series normal_mad_example_series)
  moreover have "out ! 1 = NaN"
    using miss [OF _ e(2)] by (simp add: n)
  moreover have "out ! 2 = Fin (- (10000 / 32239))"
    using pres [OF _ e(3)] by (simp add: n middle_example_series normal_mad_example_series)
  moreover have "out ! 3 = Fin (10000 / 32239)"
    using pres [OF _ e(4)] by (simp add: n middle_example_series normal_mad_example_series)
  moreover have "out ! 4 = Fin (70000 / 32239)"
    using pres [OF _ e(5)] by (simp add: n middle_example_series normal_mad_example_series)
  ultimately have "out = [Fin (- (20000 / 32239)), NaN, Fin (- (10000 / 32239)),
              Fin (10000 / 32239), Fin (70000 / 32239)]"
    using l by (intro nth_equalityI) (auto simp: less_Suc_eq numeral_eq_Suc)
  with run is_numeric_example_series middle_example_series normal_mad_example_series
  show ?thesis by simp
qed

text \<open>
  Claim C7. In mad_robustize_col the output has the length of the input, is missing
  wherever the input is missing, and is not missing at a position where the input is
  present, when mad + epsilon is not zero. The missing entries take no part in the
  median or in the MAD: the values returned at the present positions are the values
  returned for the column with the missing entries removed.
\<close>

theorem mad_robustize_col_missing:
  assumes "mad_robustize_col col epsilon = Inr out"
  shows "length out = length col
       \<and> (\<forall>i<length col. col ! i = NA \<longrightarrow> out ! i = NaN)
       \<and> (\<forall>i<length col. col ! i \<noteq> NA \<and> normal_mad (observed col) + epsilon \<noteq> 0
            \<longrightarrow> out ! i \<noteq> NaN)
       \<and> mad_robustize_col (filter (\<lambda>c. c \<noteq> NA) col) epsilon
           = Inr (map snd (filter (\<lambda>p. fst p \<noteq> NA) (zip col out)))"
proof -
  note num = mad_robustize_col_InrD(1) [OF assms]
  note out = mad_robustize_col_InrD(2) [OF assms]
  have len: "length out = length col"
    by (simp add: out)
  have miss: "out ! i = NaN" if "i < length col" "col ! i = NA" for i
    using out that by (rule mad_robustize_col_absent)
  have pres: "out ! i \<noteq> NaN"
    if i: "i < length col" and v: "col ! i \<noteq> NA"
      and nz: "normal_mad (observed col) + epsilon \<noteq> 0" for i
  proof -
    from is_numeric_cases [OF num i] v obtain x where x: "col ! i = Num x" by blast
    from mad_robustize_col_present [OF out i x] nz show ?thesis
      by (simp add: Let_def)
  qed
  let ?kept = "filter (\<lambda>c. c \<noteq> NA) col"
  have med: "pd_median ?kept = pd_median col"
    by (simp add: pd_median_def present_observed observed_filter)
  have mad: "col_mad ?kept = col_mad col"
    unfolding col_mad_def median_abs_deviation_def present_observed observed_filter
    by (rule refl)
  have "mad_robustize_col ?kept epsilon
          = Inr (map (\<lambda>v. cell_div (cell_sub v (pd_median col))
                             (cell_add (col_mad col) (Num epsilon))) ?kept)"
    using is_numeric_filter [OF num] by (simp add: mad_robustize_col_def med mad)
  also have "map (\<lambda>v. cell_div (cell_sub v (pd_median col))
                          (cell_add (col_mad col) (Num epsilon))) ?kept
             = map snd (filter (\<lambda>p. fst p \<noteq> NA) (zip col out))"
    unfolding out by (rule present_positions_map [symmetric])
  finally have excl: "mad_robustize_col ?kept epsilon
           = Inr (map snd (filter (\<lambda>p. fst p \<noteq> NA) (zip col out)))" .
  from len miss pres excl show ?thesis by blast
qed

theorem mad_robustize_col_missing_witness:
  "mad_robustize_col flat_series 1 = Inr [Fin 0, NaN, Fin 0, Fin 0, Fin 4]
   \<and> length [Fin 0, NaN, Fin 0, Fin 0, Fin 4] = length flat_series
   \<and> flat_series ! 1 = NA
   \<and> [Fin 0, NaN, Fin 0, Fin 0, Fin 4] ! 1 = NaN
   \<and> flat_series ! 0 \<noteq> NA
   \<and> normal_mad (observed flat_series) + 1 \<noteq> 0
   \<and> [Fin 0, NaN, Fin 0, Fin 0, Fin 4] ! 0 \<noteq> NaN
   \<and> mad_robustize_col (filter (\<lambda>c. c \<noteq> NA) flat_series) 1
       = Inr [Fin 0, Fin 0, Fin 0, Fin 4]"
proof -
  note concl = mad_robustize_col_missing [OF flat_series_run]
  have a: "flat_series ! 1 = NA" and b: "flat_series ! 0 \<noteq> NA"
    by (simp_all add: flat_series_def)
  have c: "normal_mad (observed flat_series) + 1 \<noteq> 0"
    by (simp add: normal_mad_flat_series)
  have z: "map snd (filter (\<lambda>p. fst p \<noteq> NA)
             (zip flat_series [Fin 0, NaN, Fin 0, Fin 0, Fin 4]))
           = [Fin 0, Fin 0, Fin 0, Fin 4]"
    by (simp add: flat_series_def)
  from concl have "mad_robustize_col (filter (\<lambda>c. c \<noteq> NA) flat_series) 1
       = Inr [Fin 0, Fin 0, Fin 0, Fin 4]"
    by (simp only: z)
  moreover have "length [Fin 0, NaN, Fin 0, Fin 0, Fin 4] = length flat_series"
    by (simp add: flat_series_def)
  ultimately show ?thesis
    using flat_series_run a b c by simp
qed

section \<open>Properties of the cell-count regression\<close>

lemma feature_cols_example_counts: "feature_cols example_counts = [''Cells'', ''Feature_X'']"
  by (simp add: feature_cols_def example_counts_def is_feature_def)

lemma is_identifier_Cells: "is_identifier ''Cells''"
  by (simp add: is_identifier_def py_keywords_def)

lemma is_identifier_Feature_X: "is_identifier ''Feature_X''"
  by (simp add: is_identifier_def py_keywords_def)

lemma ols_resid_counts_self:
  "ols_resid [Num 3, Num 1, Num 2] [Num 3, Num 1, Num 2] = Inr [Num 0, Num 0, Num 0]"
  by (simp add: ols_resid_def is_numeric_def complete_rows_def Let_def)

lemma ols_resid_feature_zero:
  "ols_resid [Num 1, Num 2, Num 6] [Num 0, Num 0, Num 0] = Inr [Num (- 2), Num (- 1), Num 3]"
  by (simp add: ols_resid_def is_numeric_def complete_rows_def Let_def)

lemma ols_resid_feature_counts:
  "ols_resid [Num 1, Num 2, Num 6] [Num 3, Num 1, Num 2]
     = Inr [Num (- (3 / 2)), Num (- (3 / 2)), Num 3]"
  by (simp add: ols_resid_def is_numeric_def complete_rows_def Let_def)

lemma regress_features_example_counts:
  "regress_features example_counts ''Cells'' [''Cells'', ''Feature_X'']
     = Inr [(''Metadata_Well'', [Str ''A1'', Str ''A2'', Str ''A3'']),
            (''Cells'', [Num 0, Num 0, Num 0]),
            (''Feature_X'', [Num (- 2), Num (- 1), Num 3])]"
  by (simp add: example_counts_def ols_fit_resid_def is_identifier_Cells is_identifier_Feature_X
      ols_resid_counts_self ols_resid_feature_zero set_column_def)

text \<open>
  The same counts and feature under a name that starts with Metadata_: the counts are not
  a feature column, they are kept and renamed, and the feature comes back as its
  least-squares residuals, whose covariance with the counts is zero.
\<close>

lemma regress_out_metadata_counts_example:
  "regress_out_cell_counts
     [(''Metadata_Cells'', [Num 3, Num 1, Num 2]),
      (''Feature_X'', [Num 1, Num 2, Num 6])]
     ''Metadata_Cells'' (Some ''Metadata_Cells_Used'')
   = Inr [(''Metadata_Cells_Used'', [Num 3, Num 1, Num 2]),
          (''Feature_X'', [Num (- (3 / 2)), Num (- (3 / 2)), Num 3])]
   \<and> covariance [Num (- (3 / 2)), Num (- (3 / 2)), Num 3] [Num 3, Num 1, Num 2] = 0"
  by (simp add: regress_out_cell_counts_def feature_cols_def is_feature_def ols_fit_resid_def
      is_identifier_def py_keywords_def ols_resid_feature_counts set_column_def rename_column_def
      covariance_def complete_rows_def Let_def)

text \<open>
  Claim C1. The claim says that after regress_out_cell_counts(df, "Cells", "Cells_Used")
  the column Cells_Used holds the original cell counts. The column Cells is itself one
  of the feature columns the loop runs over (its name does not start with Metadata_), so
  it is regressed on itself and overwritten by its residuals, which are zero, before it
  is renamed. On the table below the counts 3, 1, 2 come back as 0, 0, 0 under the name
  Cells_Used (the column Cells is absent, as the claim says).
\<close>

theorem regress_out_cell_counts_rename_example:
  "regress_out_cell_counts
     [(''Metadata_Well'', [Str ''A1'', Str ''A2'', Str ''A3'']),
      (''Cells'', [Num 3, Num 1, Num 2]),
      (''Feature_X'', [Num 1, Num 2, Num 6])]
     ''Cells'' (Some ''Cells_Used'')
   = Inr [(''Metadata_Well'', [Str ''A1'', Str ''A2'', Str ''A3'']),
          (''Cells_Used'', [Num 0, Num 0, Num 0]),
          (''Feature_X'', [Num (- 2), Num (- 1), Num 3])]"
  using regress_features_example_counts feature_cols_example_counts
  by (simp add: regress_out_cell_counts_def rename_column_def example_counts_def)

text \<open>
  Claim C2. The claim says that after the call every feature column holds residuals
  that are uncorrelated with the original cell-count column. A feature that comes after
  the cell-count column in the frame is fitted against the overwritten column, not
  against the counts: in exact arithmetic that column is zero and the feature is only
  centred. On the table below Feature_X comes back as -2, -1, 3, with covariance -1/3
  with the original counts 3, 1, 2.
\<close>

theorem regress_out_cell_counts_correlated_example:
  "regress_out_cell_counts example_counts ''Cells'' None
   = Inr [(''Metadata_Well'', [Str ''A1'', Str ''A2'', Str ''A3'']),
          (''Cells'', [Num 0, Num 0, Num 0]),
          (''Feature_X'', [Num (- 2), Num (- 1), Num 3])]
   \<and> covariance [Num (- 2), Num (- 1), Num 3] [Num 3, Num 1, Num 2] = - (1 / 3)"
  using regress_features_example_counts feature_cols_example_counts
  by (simp add: regress_out_cell_counts_def covariance_def complete_rows_def Let_def)

section \<open>Properties of the loader\<close>

lemma ends_with_parquet_is_str: "ends_with_parquet output \<Longrightarrow> is_str output"
  by (cases "output") (simp_all add: ends_with_parquet_def is_str_def)

lemma load_bad_output:
  assumes "output \<noteq> PyNone" and "\<not> ends_with_parquet output"
  shows "load env dataset source component batch plate columns output
           = ([], Inl (AssertionError (if is_str output then msg_output_parquet else msg_output_str)))"
  using assms by (simp add: load_def)

lemma load_bad_columns:
  assumes "output = PyNone \<or> ends_with_parquet output"
    and "columns \<noteq> PyNone" and "\<not> is_list columns"
  shows "load env dataset source component batch plate columns output
           = ([], Inl (AssertionError msg_columns))"
proof -
  from assms(1) have "\<not> (output \<noteq> PyNone \<and> \<not> is_str output)"
    and "\<not> (output \<noteq> PyNone \<and> \<not> ends_with_parquet output)"
    by (auto dest: ends_with_parquet_is_str)
  then show ?thesis
    unfolding load_def using assms(2,3) by (simp only: if_False if_True simp_thms)
qed

lemma load_checked_head:
  assumes "output = PyNone \<or> ends_with_parquet output"
    and "columns = PyNone \<or> is_list columns"
  shows "load env dataset source component batch plate columns output =
     (let log1 = (case columns of PyList cs \<Rightarrow> [LogInfo (LoadingColumns cs)] | _ \<Rightarrow> [])
        in if component \<notin> set [''profiles'', ''load_data_csv'']
           then (log1, Inl (AssertionError msg_component))
           else if batch = None \<and> plate \<noteq> None
           then (log1, Inl (AssertionError msg_plate))
           else
             let dataset_source =
                   ''cellpainting-gallery/'' @ dataset @ ''/'' @ source @ ''/workspace/profiles'';
                 dataset_source =
                   (case batch of
                      None \<Rightarrow> dataset_source
                    | Some b \<Rightarrow>
                        (let with_batch = dataset_source @ ''/'' @ b
                         in case plate of
                              None \<Rightarrow> with_batch
                            | Some p \<Rightarrow> with_batch @ ''/'' @ p));
                 schema = [''dataset'', ''source'', ''workspace'', component, ''batch'', ''plate''];
                 cols = (case columns of PyList cs \<Rightarrow> Some cs | _ \<Rightarrow> None);
                 trace = log1 @ [LogInfo (LoadingProfilesFrom dataset_source),
                                 DsDataset dataset_source schema]
             in case ds_dataset env dataset_source schema of
                  Inl e \<Rightarrow> (trace, Inl e)
                | Inr d \<Rightarrow>
                    (let trace = trace @ [LogInfo (FoundFiles (files env d)),
                                          LogInfo (LoadComponent component),
                                          ToTable cols]
                     in case to_table env d cols of
                          Inl e \<Rightarrow> (trace, Inl e)
                        | Inr df \<Rightarrow>
                            (case output of
                               PyStr out \<Rightarrow>
                                 (trace @ [LogInfo (WritingTo component out), WriteTable out],
                                  Inr None)
                             | _ \<Rightarrow> (trace, Inr (Some df)))))"
proof -
  from assms(1) have "\<not> (output \<noteq> PyNone \<and> \<not> is_str output)"
    and "\<not> (output \<noteq> PyNone \<and> \<not> ends_with_parquet output)"
    by (auto dest: ends_with_parquet_is_str)
  moreover from assms(2) have "\<not> (columns \<noteq> PyNone \<and> \<not> is_list columns)"
    by auto
  ultimately show ?thesis
    unfolding load_def by (simp only: if_False)
qed

lemma column_log_not_remote:
  "list_all (\<lambda>ev. \<not> is_remote ev)
     (case columns of PyList cs \<Rightarrow> [LogInfo (LoadingColumns cs)] | _ \<Rightarrow> [])"
  by (cases columns) (simp_all add: is_remote_def)

lemma queries_append: "queries (xs @ ys) = queries xs @ queries ys"
  by (simp add: queries_def)

lemma queries_column_log:
  "queries (case columns of PyList cs \<Rightarrow> [LogInfo (LoadingColumns cs)] | _ \<Rightarrow> []) = []"
  by (cases columns) (simp_all add: queries_def)

lemma load_passes_queries:
  assumes "\<not> precondition_violated component batch plate columns output"
  shows "queries (fst (load env dataset source component batch plate columns output))
           = [(profiles_path dataset source batch plate,
               [''dataset'', ''source'', ''workspace'', component, ''batch'', ''plate''])]"
proof -
  from assms have out: "output = PyNone \<or> ends_with_parquet output"
    and cols: "columns = PyNone \<or> is_list columns"
    and comp: "\<not> component \<notin> set [''profiles'', ''load_data_csv'']"
    and plate: "\<not> (batch = None \<and> plate \<noteq> None)"
    unfolding precondition_violated_def by auto
  show ?thesis
    unfolding load_checked_head [OF out cols] Let_def
    using comp plate
    by (cases batch; cases plate)
      (simp_all add: queries_append queries_column_log queries_def profiles_path_def
        split: sum.splits pyval.splits)
qed

lemma passes_either_component:
  assumes "\<not> precondition_violated component batch plate columns output"
  shows "\<not> precondition_violated ''profiles'' batch plate columns output"
    and "\<not> precondition_violated ''load_data_csv'' batch plate columns output"
  using assms by (simp_all add: precondition_violated_def)

text \<open>
  Claim C8. When a precondition is violated (the component is neither "profiles" nor
  "load_data_csv", or an output is given that does not end with ".parquet", or columns
  are given that are not a list, or a plate is given without a batch), load raises an
  assertion error carrying one of the messages of its checks, and nothing but log lines
  has happened before: no dataset query, no table read, no write.
\<close>

theorem load_fails_fast:
  assumes "precondition_violated component batch plate columns output"
  shows "(\<exists>msg \<in> set assertion_messages.
            snd (load env dataset source component batch plate columns output)
              = Inl (AssertionError msg))
       \<and> list_all (\<lambda>ev. \<not> is_remote ev)
            (fst (load env dataset source component batch plate columns output))"
proof (cases "output \<noteq> PyNone \<and> \<not> ends_with_parquet output")
  case True
  then show ?thesis
    by (simp add: load_bad_output assertion_messages_def)
next
  case out_ok: False
  then have out: "output = PyNone \<or> ends_with_parquet output" by blast
  show ?thesis
  proof (cases "columns \<noteq> PyNone \<and> \<not> is_list columns")
    case True
    with out show ?thesis
      by (simp add: load_bad_columns assertion_messages_def)
  next
    case False
    then have cols: "columns = PyNone \<or> is_list columns" by blast
    from assms out_ok False
    have bad: "component \<notin> set [''profiles'', ''load_data_csv''] \<or> (batch = None \<and> plate \<noteq> None)"
      unfolding precondition_violated_def by auto
    show ?thesis
    proof (cases "component \<notin> set [''profiles'', ''load_data_csv'']")
      case True
      then show ?thesis
        unfolding load_checked_head [OF out cols] Let_def
        by (simp add: assertion_messages_def column_log_not_remote)
    next
      case False
      with bad have "batch = None \<and> plate \<noteq> None" by blast
      with False show ?thesis
        unfolding load_checked_head [OF out cols] Let_def
        by (simp add: assertion_messages_def column_log_not_remote)
    qed
  qed
qed

theorem load_fails_fast_witness:
  "precondition_violated ''images'' None None PyNone PyNone
   \<and> (\<exists>msg \<in> set assertion_messages.
         snd (load empty_store ''cpg0016-jump'' ''source_4'' ''images'' None None PyNone PyNone)
           = Inl (AssertionError msg))
   \<and> list_all (\<lambda>ev. \<not> is_remote ev)
        (fst (load empty_store ''cpg0016-jump'' ''source_4'' ''images'' None None PyNone PyNone))"
proof -
  have v: "precondition_violated ''images'' None None PyNone PyNone"
    by (simp add: precondition_violated_def)
  from load_fails_fast [OF v] v show ?thesis by blast
qed

text \<open>
  Claim C9. A call of load that passes the precondition checks queries the object store
  exactly once, at "cellpainting-gallery/{dataset}/{source}/workspace/profiles" extended
  by the batch and the plate when given. The component is one field of the partitioning
  schema of that query and no part of the path: both components query the same path.
\<close>

theorem load_queries_profiles_path:
  assumes "\<not> precondition_violated component batch plate columns output"
  shows "queries (fst (load env dataset source component batch plate columns output))
           = [(profiles_path dataset source batch plate,
               [''dataset'', ''source'', ''workspace'', component, ''batch'', ''plate''])]
       \<and> map fst (queries (fst (load env dataset source ''profiles'' batch plate columns output)))
           = map fst
               (queries (fst (load env dataset source ''load_data_csv'' batch plate columns output)))"
proof -
  note p1 = passes_either_component(1) [OF assms]
  note p2 = passes_either_component(2) [OF assms]
  show ?thesis
    by (simp only: load_passes_queries [OF assms] load_passes_queries [OF p1]
        load_passes_queries [OF p2]) simp
qed

theorem load_queries_profiles_path_witness:
  "\<not> precondition_violated ''load_data_csv'' (Some ''2021_06_14_Batch6'') (Some ''BR00121429'')
        (PyList [''Metadata_Well'']) (PyStr ''test.parquet'')
   \<and> queries (fst (load empty_store ''cpg0016-jump'' ''source_4'' ''load_data_csv''
                     (Some ''2021_06_14_Batch6'') (Some ''BR00121429'')
                     (PyList [''Metadata_Well'']) (PyStr ''test.parquet'')))
       = [(''cellpainting-gallery/cpg0016-jump/source_4/workspace/profiles/2021_06_14_Batch6/BR00121429'',
           [''dataset'', ''source'', ''workspace'', ''load_data_csv'', ''batch'', ''plate''])]"
proof -
  have ok: "\<not> precondition_violated ''load_data_csv'' (Some ''2021_06_14_Batch6'')
                (Some ''BR00121429'') (PyList [''Metadata_Well'']) (PyStr ''test.parquet'')"
    by (simp add: precondition_violated_def ends_with_parquet_def is_list_def suffix_def)
  have path: "profiles_path ''cpg0016-jump'' ''source_4'' (Some ''2021_06_14_Batch6'')
                (Some ''BR00121429'')
              = ''cellpainting-gallery/cpg0016-jump/source_4/workspace/profiles/2021_06_14_Batch6/BR00121429''"
    by (simp add: profiles_path_def)
  from load_queries_profiles_path [OF ok, of empty_store "''cpg0016-jump''" "''source_4''"]
  show ?thesis
    using ok by (simp add: path)
qed

end
